theory Spec2Isabelle
  imports Complex_Main
begin

section \<open>The report renderer of NGG (report.js)\<close>

text \<open>
  The script \<^verbatim>\<open>report_templates/static/js/report.js\<close> fills a static HTML page from a
  scan report: summary fields, a findings table with expandable evidence, a two-slice pie
  chart and a list of recommendations. The embedding keeps the three functions of the
  script, \<open>renderReport\<close>, \<open>toggleEvidence\<close> and \<open>drawSimpleChart\<close>, as functions on an
  explicit model of the page.

  Conventions of the model:
  \<^item> The counts of a report are JavaScript numbers with integer values, held as \<open>int\<close>.
    Their sum in the total field is rounded as an addition of doubles rounds, and a number
    is printed as \<^verbatim>\<open>Number.prototype.toString\<close> prints it. In the chart, angles and
    coordinates are exact reals.
  \<^item> Markup assigned through \<^verbatim>\<open>innerHTML\<close> or \<^verbatim>\<open>insertAdjacentHTML\<close> becomes the
    elements its template spells out when every interpolated string reaches the page as
    written, that is when it holds no character the HTML parser treats as markup. Otherwise
    the page keeps the markup as assigned and the model does not say what elements the
    parser makes of it. Whitespace-only text nodes between elements are left out.
  \<^item> An exception is a value: the outcome of a call records what was thrown together with
    the page as it was at that moment.
\<close>

subsection \<open>JavaScript values and built-ins used by the script\<close>

datatype js_error = TypeError

datatype js_value =
    JSUndefined
  | JSString string
  | JSFunction string   \<comment> \<open>a built-in function, by its name\<close>
  | JSObject            \<comment> \<open>a plain object\<close>

text \<open>Truthiness, as tested by \<^verbatim>\<open>if (v)\<close> and \<^verbatim>\<open>v || d\<close>.\<close>

fun truthy :: "js_value \<Rightarrow> bool" where
  "truthy JSUndefined = False"
| "truthy (JSString s) = (s \<noteq> [])"
| "truthy (JSFunction f) = True"
| "truthy JSObject = True"

text \<open>
  String conversion, as performed by a template literal \<^verbatim>\<open>${v}\<close>. A built-in function
  prints in the NativeFunction form (spelled as V8 does).
\<close>

fun ToString :: "js_value \<Rightarrow> string" where
  "ToString JSUndefined = ''undefined''"
| "ToString (JSString s) = s"
| "ToString (JSFunction f) = ''function '' @ f @ ''() { [native code] }''"
| "ToString JSObject = ''[object Object]''"

definition digit_char :: "nat \<Rightarrow> char" where
  "digit_char d = ''0123456789abcdef'' ! d"

text \<open>The decimal digits of a number from 0 on.\<close>

function decimal_digits :: "int \<Rightarrow> string" where
  "decimal_digits n =
     (if n < 10 then [digit_char (nat n)]
      else decimal_digits (n div 10) @ [digit_char (nat (n mod 10))])"
  by pat_completeness auto
termination
  by (relation "measure nat") auto

declare decimal_digits.simps [simp del]

text \<open>
  A number is a double. The integers among the doubles are the integers below \<open>2^53\<close> in
  magnitude and, above, those with 53 significant bits; the result of an addition is the
  nearest double, the even one of two that are equally near, and infinite from
  \<open>2^1024\<close> on.
\<close>

datatype js_number = Finite int | PosInfinity | NegInfinity

function bit_length :: "int \<Rightarrow> nat" where
  "bit_length n = (if n \<le> 0 then 0 else Suc (bit_length (n div 2)))"
  by pat_completeness auto
termination
  by (relation "measure nat") auto

declare bit_length.simps [simp del]

definition round_magnitude :: "int \<Rightarrow> int" where
  "round_magnitude m =
     (if m < 2 ^ 53 then m
      else
        let e = bit_length m - 53;
            q = m div 2 ^ e;
            r = m mod 2 ^ e;
            half = 2 ^ (e - 1)
        in (if r > half \<or> (r = half \<and> odd q) then q + 1 else q) * 2 ^ e)"

definition round_double :: "int \<Rightarrow> js_number" where
  "round_double i =
     (let m = round_magnitude \<bar>i\<bar>
      in if m \<ge> 2 ^ 1024 then (if i < 0 then NegInfinity else PosInfinity)
         else Finite (if i < 0 then - m else m))"

text \<open>The operator \<^verbatim>\<open>+\<close> on two numbers with integer values.\<close>

definition js_add :: "int \<Rightarrow> int \<Rightarrow> js_number" where
  "js_add a b = round_double (a + b)"

text \<open>
  \<^verbatim>\<open>Number.prototype.toString\<close> prints the shortest run of digits \<open>s\<close>, with a decimal
  exponent, that reads back as the same double, and the nearest to it when several of that
  length do. With \<open>k\<close> digits tried for a number of \<open>nd\<close> digits, the candidates are the
  two multiples of \<open>10^(nd - k)\<close> around it; the result is \<open>s\<close> and the number \<open>n\<close> of
  digits before the decimal point.
\<close>

definition try_digits :: "nat \<Rightarrow> int \<Rightarrow> nat \<Rightarrow> (int \<times> nat) option" where
  "try_digits k m nd =
     (if k \<ge> nd then Some (m, nd)
      else
        let scale = 10 ^ (nd - k);
            lo = m div scale;
            hi = lo + 1;
            lo_ok = (round_magnitude (lo * scale) = m);
            hi_ok = (round_magnitude (hi * scale) = m);
            lo_dist = m - lo * scale;
            hi_dist = hi * scale - m;
            upper = (if hi = 10 ^ k then (10 ^ (k - 1), Suc nd) else (hi, nd))
        in if lo_ok \<and> hi_ok then
             (if lo_dist < hi_dist \<or> (lo_dist = hi_dist \<and> even lo) then Some (lo, nd)
              else Some upper)
           else if lo_ok then Some (lo, nd)
           else if hi_ok then Some upper
           else None)"

text \<open>Seventeen digits always suffice for a double.\<close>

fun shortest_digits :: "nat \<Rightarrow> nat \<Rightarrow> int \<Rightarrow> nat \<Rightarrow> int \<times> nat" where
  "shortest_digits 0 k m nd = (m, nd)"
| "shortest_digits (Suc fuel) k m nd =
     (case try_digits k m nd of
        Some r \<Rightarrow> r
      | None \<Rightarrow> shortest_digits fuel (Suc k) m nd)"

text \<open>
  Below \<open>2^53\<close> every integer is a double and is printed with all its digits. From
  \<open>2^53\<close> on the shortest digits are followed by zeros, and from \<open>10^21\<close> on the
  exponent is written out.
\<close>

definition magnitude_toString :: "int \<Rightarrow> string" where
  "magnitude_toString m =
     (if m < 2 ^ 53 then decimal_digits m
      else
        let sn = shortest_digits 17 1 m (length (decimal_digits m));
            ds = decimal_digits (fst sn);
            k = length ds;
            n = snd sn
        in if n \<le> 21 then ds @ replicate (n - k) (CHR ''0'')
           else (if k = 1 then ds else take 1 ds @ ''.'' @ drop 1 ds)
                @ ''e+'' @ decimal_digits (int (n - 1)))"

definition Number_toString :: "int \<Rightarrow> string" where
  "Number_toString i =
     (if i < 0 then ''-'' @ magnitude_toString (- i) else magnitude_toString i)"

text \<open>\<^verbatim>\<open>String.prototype.toLowerCase\<close>, on ASCII letters.\<close>

definition lower_char :: "char \<Rightarrow> char" where
  "lower_char c =
     (if (65::nat) \<le> of_char c \<and> of_char c \<le> (90::nat) then char_of (of_char c + (32::nat)) else c)"

definition toLowerCase :: "string \<Rightarrow> string" where
  "toLowerCase s = map lower_char s"

text \<open>
  \<^verbatim>\<open>v || d\<close> followed by the assignment to \<^verbatim>\<open>textContent\<close>, which converts to a string.
  A field may be absent (\<open>None\<close>, the value \<^verbatim>\<open>undefined\<close>); the empty string and the
  number 0 are falsy, an infinite number is truthy.
\<close>

definition or_string :: "string option \<Rightarrow> string \<Rightarrow> string" where
  "or_string v d = (case v of None \<Rightarrow> d | Some s \<Rightarrow> if s = [] then d else s)"

definition or_number :: "js_number option \<Rightarrow> string \<Rightarrow> string" where
  "or_number v d =
     (case v of
        None \<Rightarrow> d
      | Some (Finite n) \<Rightarrow> if n = 0 then d else Number_toString n
      | Some PosInfinity \<Rightarrow> ''Infinity''
      | Some NegInfinity \<Rightarrow> ''-Infinity'')"

subsection \<open>JSON values and \<^verbatim>\<open>JSON.stringify(v, null, 2)\<close>\<close>

datatype json =
    JNull
  | JBool bool
  | JNum int
  | JStr string
  | JArr "json list"
  | JObj "(string \<times> json) list"   \<comment> \<open>own properties in enumeration order\<close>

definition newline :: string where
  "newline = [CHR 0x0A]"

definition QuoteJSONChar :: "char \<Rightarrow> string" where
  "QuoteJSONChar c =
     (if c = CHR 0x08 then [CHR 0x5C, CHR ''b'']
      else if c = CHR 0x09 then [CHR 0x5C, CHR ''t'']
      else if c = CHR 0x0A then [CHR 0x5C, CHR ''n'']
      else if c = CHR 0x0C then [CHR 0x5C, CHR ''f'']
      else if c = CHR 0x0D then [CHR 0x5C, CHR ''r'']
      else if c = CHR 0x22 then [CHR 0x5C, CHR 0x22]
      else if c = CHR 0x5C then [CHR 0x5C, CHR 0x5C]
      else if (of_char c :: nat) < 32
        then [CHR 0x5C, CHR ''u'', CHR ''0'', CHR ''0'',
              digit_char (of_char c div 16), digit_char (of_char c mod 16)]
      else [c])"

definition QuoteJSONString :: "string \<Rightarrow> string" where
  "QuoteJSONString s = [CHR 0x22] @ concat (map QuoteJSONChar s) @ [CHR 0x22]"

fun join :: "string \<Rightarrow> string list \<Rightarrow> string" where
  "join sep [] = []"
| "join sep [x] = x"
| "join sep (x # y # ys) = x @ sep @ join sep (y # ys)"

text \<open>
  \<open>SerializeJSONProperty\<close> with the gap of two spaces; \<open>indent\<close> is the current
  indentation. An empty array or object prints without a line break.
\<close>

fun SerializeJSON :: "string \<Rightarrow> json \<Rightarrow> string" where
  "SerializeJSON indent JNull = ''null''"
| "SerializeJSON indent (JBool b) = (if b then ''true'' else ''false'')"
| "SerializeJSON indent (JNum n) = Number_toString n"
| "SerializeJSON indent (JStr s) = QuoteJSONString s"
| "SerializeJSON indent (JArr xs) =
     (if xs = [] then ''[]''
      else ''['' @ newline @ (indent @ ''  '')
           @ join ('','' @ newline @ (indent @ ''  ''))
                  (map (\<lambda>x. SerializeJSON (indent @ ''  '') x) xs)
           @ newline @ indent @ '']'')"
| "SerializeJSON indent (JObj kvs) =
     (if kvs = [] then ''{}''
      else ''{'' @ newline @ (indent @ ''  '')
           @ join ('','' @ newline @ (indent @ ''  ''))
                  (map (\<lambda>kv. QuoteJSONString (fst kv) @ '': ''
                               @ SerializeJSON (indent @ ''  '') (snd kv)) kvs)
           @ newline @ indent @ ''}'')"

text \<open>
  \<^verbatim>\<open>JSON.stringify(v, null, 2)\<close>; \<open>None\<close> is \<^verbatim>\<open>undefined\<close>, for which the result is
  \<^verbatim>\<open>undefined\<close> as well.
\<close>

definition JSON_stringify :: "json option \<Rightarrow> js_value" where
  "JSON_stringify v = (case v of None \<Rightarrow> JSUndefined | Some j \<Rightarrow> JSString (SerializeJSON [] j))"

subsection \<open>The recommendation catalog\<close>

text \<open>The object literal \<^verbatim>\<open>RECOMMENDATIONS_MAP\<close>: its own properties.\<close>

definition RECOMMENDATIONS_MAP :: "(string \<times> string) list" where
  "RECOMMENDATIONS_MAP =
     [(''CC1.5'', ''Your latest commit is unsigned. To fix this: 1. gpg --full-generate-key 2. git config --global commit.gpgsign true 3. git commit --amend --no-edit -S'')]"

text \<open>
  An object literal inherits from \<^verbatim>\<open>Object.prototype\<close>, whose members are found by a
  property read as well. Each is a built-in function, except the accessor \<^verbatim>\<open>__proto__\<close>,
  which yields the prototype object itself.
\<close>

definition Object_prototype :: "(string \<times> js_value) list" where
  "Object_prototype =
     [(''constructor'', JSFunction ''Object''),
      (''__defineGetter__'', JSFunction ''__defineGetter__''),
      (''__defineSetter__'', JSFunction ''__defineSetter__''),
      (''hasOwnProperty'', JSFunction ''hasOwnProperty''),
      (''__lookupGetter__'', JSFunction ''__lookupGetter__''),
      (''__lookupSetter__'', JSFunction ''__lookupSetter__''),
      (''isPrototypeOf'', JSFunction ''isPrototypeOf''),
      (''propertyIsEnumerable'', JSFunction ''propertyIsEnumerable''),
      (''toString'', JSFunction ''toString''),
      (''valueOf'', JSFunction ''valueOf''),
      (''__proto__'', JSObject),
      (''toLocaleString'', JSFunction ''toLocaleString'')]"

text \<open>The property read \<^verbatim>\<open>RECOMMENDATIONS_MAP[key]\<close>: own properties first, then the prototype.\<close>

definition RECOMMENDATIONS_MAP_get :: "string \<Rightarrow> js_value" where
  "RECOMMENDATIONS_MAP_get key =
     (case map_of RECOMMENDATIONS_MAP key of
        Some s \<Rightarrow> JSString s
      | None \<Rightarrow> (case map_of Object_prototype key of Some v \<Rightarrow> v | None \<Rightarrow> JSUndefined))"

subsection \<open>The scan report\<close>

record metadata =
  framework :: "string option"
  files_scanned :: "int option"
  target_path :: "string option"
  integrity_hash :: "string option"

record stats =
  pass :: int
  fail :: int

record finding =
  finding_id :: string
  finding_type :: string
  control :: string
  status :: string
  evidence :: "json option"

text \<open>
  The argument of \<open>renderReport\<close> is \<open>None\<close> for \<^verbatim>\<open>null\<close> or \<^verbatim>\<open>undefined\<close>. An object
  may lack \<^verbatim>\<open>metadata\<close> or \<^verbatim>\<open>stats\<close>; \<^verbatim>\<open>findings\<close> is an array.
\<close>

record report =
  metadata :: "metadata option"
  stats :: "stats option"
  findings :: "finding list"

subsection \<open>The page\<close>

record element =
  tag :: string
  className :: string
  ident :: string         \<comment> \<open>the \<^verbatim>\<open>id\<close> attribute, empty when there is none\<close>
  onclick :: string
  display :: string       \<comment> \<open>\<^verbatim>\<open>style.display\<close>, empty until it is set\<close>
  textContent :: string

text \<open>A table row: three text cells, the status badge and the children of the actions cell.\<close>

record row =
  id_cell :: string
  type_cell :: string
  control_cell :: string
  status_cell :: element
  actions_cell :: "element list"

text \<open>
  A row of the table body: its cells, or the markup assigned to its \<^verbatim>\<open>innerHTML\<close> when
  the model does not read it.
\<close>

datatype tr = Tr row | TrMarkup string

text \<open>A list item \<^verbatim>\<open><li><strong>...</strong> ...</li>\<close>.\<close>

record li =
  item_strong :: string
  item_text :: string

text \<open>What one \<^verbatim>\<open>insertAdjacentHTML\<close> adds to the list: an item, or markup left unread.\<close>

datatype list_node = Li li | LiMarkup string

text \<open>The calls made on the 2D drawing context of the canvas, in order.\<close>

datatype ctx_call =
    BeginPath
  | MoveTo real real
  | Arc real real real real real   \<comment> \<open>x, y, radius, startAngle, endAngle\<close>
  | ClosePath
  | SetFillStyle string
  | Fill

record canvas =
  width :: nat
  height :: nat
  calls :: "ctx_call list"

text \<open>
  The elements the script addresses by id. A field holds the part of the element that the
  script writes: its text, its children, or its \<^verbatim>\<open>style.display\<close>. The canvas may be
  missing from the page.
\<close>

record document =
  framework_value :: string
  pass_count :: string
  fail_count :: string
  total_count :: string
  status_value :: "element list"
  files_count :: string
  path_value :: string
  integrity_hash_el :: string
  findings_tbody :: "tr list"
  resultsChart :: "canvas option"
  recommendations_section_placeholder :: string
  recommendations_list :: "list_node list"

text \<open>What a call leaves behind: the exception if one was thrown, the lines written by
  \<^verbatim>\<open>console.error\<close>, and the page.\<close>

record outcome =
  thrown :: "js_error option"
  console_error :: "string list"
  page :: document

subsection \<open>\<open>drawSimpleChart\<close>\<close>

text \<open>
  Returns at once when the canvas is missing or the total is 0. Otherwise two closed,
  filled paths are drawn, each from the centre along an arc and back.
\<close>

definition drawSimpleChart :: "int \<Rightarrow> int \<Rightarrow> canvas option \<Rightarrow> canvas option" where
  "drawSimpleChart passCount failCount canvas =
     (case canvas of
        None \<Rightarrow> None
      | Some c \<Rightarrow>
          let total = passCount + failCount in
          if total = 0 then Some c
          else
            let centerX = real (width c) / 2;
                centerY = real (height c) / 2;
                radius = min centerX centerY - 10;
                startAngle = 0;
                passFraction = real_of_int passCount / real_of_int total;
                failFraction = real_of_int failCount / real_of_int total
            in Some (c\<lparr>calls := calls c @
                 [BeginPath,
                  MoveTo centerX centerY,
                  Arc centerX centerY radius startAngle (startAngle + pi * 2 * passFraction),
                  ClosePath,
                  SetFillStyle ''#073b0f'',
                  Fill,
                  BeginPath,
                  MoveTo centerX centerY,
                  Arc centerX centerY radius (startAngle + pi * 2 * passFraction)
                      (startAngle + pi * 2 * (passFraction + failFraction)),
                  ClosePath,
                  SetFillStyle ''#8c1515'',
                  Fill]\<rparr>))"

subsection \<open>\<open>renderReport\<close>\<close>

text \<open>
  The characters that keep a string from reaching the page as written. In text the parser
  takes \<^verbatim>\<open><\<close> for the start of a tag and \<^verbatim>\<open>&\<close> for a character reference, turns a
  carriage return into a line feed and drops the character 0. In an attribute value between
  double quotes, a double quote ends the value; \<^verbatim>\<open><\<close> is harmless there.
\<close>

definition text_safe :: "string \<Rightarrow> bool" where
  "text_safe s \<longleftrightarrow>
     CHR ''<'' \<notin> set s \<and> CHR ''&'' \<notin> set s \<and> CHR 0x0D \<notin> set s \<and> CHR 0x00 \<notin> set s"

definition attr_safe :: "string \<Rightarrow> bool" where
  "attr_safe s \<longleftrightarrow>
     CHR 0x22 \<notin> set s \<and> CHR ''&'' \<notin> set s \<and> CHR 0x0D \<notin> set s \<and> CHR 0x00 \<notin> set s"

definition dquote :: string where
  "dquote = [CHR 0x22]"

definition spaces :: "nat \<Rightarrow> string" where
  "spaces n = replicate n (CHR '' '')"

text \<open>The template literal assigned to \<^verbatim>\<open>row.innerHTML\<close>, character by character.\<close>

definition row_markup :: "finding \<Rightarrow> string" where
  "row_markup f =
     (let statusClass = (if status f = ''PASS'' then ''status-pass'' else ''status-fail'');
          statusText = status f
      in newline
         @ spaces 12 @ ''<td>'' @ finding_id f @ ''</td>'' @ newline
         @ spaces 12 @ ''<td>'' @ finding_type f @ ''</td>'' @ newline
         @ spaces 12 @ ''<td>'' @ control f @ ''</td>'' @ newline
         @ spaces 12 @ ''<td><span class='' @ dquote @ statusClass @ dquote @ ''>''
             @ statusText @ ''</span></td>'' @ newline
         @ spaces 12 @ ''<td>'' @ newline
         @ spaces 16
         @ (if status f = ''FAIL'' then
              ''<button class='' @ dquote @ ''toggle-details'' @ dquote
                @ '' onclick='' @ dquote @ ''toggleEvidence(this)'' @ dquote
                @ ''>Show Evidence</button>'' @ newline
              @ spaces 21 @ ''<div class='' @ dquote @ ''evidence-details'' @ dquote
                @ '' id='' @ dquote @ ''details-'' @ finding_id f @ dquote @ ''>'' @ newline
              @ spaces 24 @ ''<pre>'' @ ToString (JSON_stringify (evidence f)) @ ''</pre>''
                @ newline
              @ spaces 21 @ ''</div>''
            else ''<span>N/A</span>'')
         @ newline
         @ spaces 12 @ ''</td>'' @ newline
         @ spaces 8)"

text \<open>
  The elements that markup stands for: three text cells, the status badge, and in the
  actions cell either the toggle button followed by the evidence block or the marker.
\<close>

definition finding_cells :: "finding \<Rightarrow> row" where
  "finding_cells f =
     (let statusClass = (if status f = ''PASS'' then ''status-pass'' else ''status-fail'');
          statusText = status f
      in \<lparr>id_cell = finding_id f,
          type_cell = finding_type f,
          control_cell = control f,
          status_cell = \<lparr>tag = ''span'', className = statusClass, ident = [], onclick = [],
                          display = [], textContent = statusText\<rparr>,
          actions_cell =
            (if status f = ''FAIL'' then
               [\<lparr>tag = ''button'', className = ''toggle-details'', ident = [],
                  onclick = ''toggleEvidence(this)'', display = [],
                  textContent = ''Show Evidence''\<rparr>,
                \<lparr>tag = ''div'', className = ''evidence-details'',
                  ident = ''details-'' @ finding_id f, onclick = [], display = [],
                  textContent = ToString (JSON_stringify (evidence f))\<rparr>]
             else
               [\<lparr>tag = ''span'', className = [], ident = [], onclick = [], display = [],
                  textContent = ''N/A''\<rparr>])\<rparr>)"

text \<open>
  Every string the template interpolates reaches the page as written: the id, type,
  control and status as text and, in the row of a failed finding, the id inside the
  \<^verbatim>\<open>id\<close> attribute and the printed evidence as text.
\<close>

definition row_as_written :: "finding \<Rightarrow> bool" where
  "row_as_written f \<longleftrightarrow>
     text_safe (finding_id f) \<and> text_safe (finding_type f) \<and> text_safe (control f)
     \<and> text_safe (status f)
     \<and> (if status f = ''FAIL''
         then attr_safe (finding_id f) \<and> text_safe (ToString (JSON_stringify (evidence f)))
         else True)"

text \<open>The row created for one finding, after the assignment to \<^verbatim>\<open>row.innerHTML\<close>.\<close>

definition finding_row :: "finding \<Rightarrow> tr" where
  "finding_row f = (if row_as_written f then Tr (finding_cells f) else TrMarkup (row_markup f))"

text \<open>\<^verbatim>\<open>data.findings.forEach(...)\<close>: each row is appended to the children of the table body.\<close>

fun appendRows :: "finding list \<Rightarrow> tr list \<Rightarrow> tr list" where
  "appendRows [] tbody = tbody"
| "appendRows (f # fs) tbody = appendRows fs (tbody @ [finding_row f])"

text \<open>
  The template literal \<^verbatim>\<open>listItemHtml\<close> and what \<^verbatim>\<open>insertAdjacentHTML\<close> makes of it.
\<close>

definition item_markup :: "string \<Rightarrow> string \<Rightarrow> string" where
  "item_markup controlId txt =
     newline @ spaces 20 @ ''<li><strong>'' @ controlId @ '':</strong> '' @ txt @ ''</li>''
     @ newline @ spaces 16"

definition list_item :: "string \<Rightarrow> string \<Rightarrow> list_node" where
  "list_item controlId txt =
     (if text_safe controlId \<and> text_safe txt
      then Li \<lparr>item_strong = controlId @ '':'', item_text = txt\<rparr>
      else LiMarkup (item_markup controlId txt))"

text \<open>The list item inserted for one failed finding.\<close>

definition recommendation_item :: "finding \<Rightarrow> list_node" where
  "recommendation_item f =
     (let controlId = finding_id f;
          recommendationText = RECOMMENDATIONS_MAP_get controlId
      in if truthy recommendationText then
           list_item controlId (ToString recommendationText)
         else
           let fallbackText = ''No specific recommendation found for control '' @ controlId
                 @ ''. Please review the control objective and evidence.''
           in list_item controlId fallbackText)"

text \<open>\<^verbatim>\<open>failedFindings.forEach(...)\<close>: each item is inserted at the end of the list.\<close>

fun insertItems :: "finding list \<Rightarrow> list_node list \<Rightarrow> list_node list" where
  "insertItems [] lst = lst"
| "insertItems (f # fs) lst = insertItems fs (lst @ [recommendation_item f])"

text \<open>
  The statements of \<open>renderReport\<close> in order. Reading a property of a missing
  \<^verbatim>\<open>metadata\<close> or \<^verbatim>\<open>stats\<close> throws; what was written before stays written. The
  alternative \<^verbatim>\<open>|| 'Processing...'\<close> of the status badge is never taken, the markup before
  it being a non-empty string.
\<close>

definition renderReport :: "report option \<Rightarrow> document \<Rightarrow> outcome" where
  "renderReport data doc =
     (case data of
        None \<Rightarrow>
          \<lparr>thrown = None, console_error = [''No data provided to renderReport.''], page = doc\<rparr>
      | Some d \<Rightarrow>
         (case metadata d of
            None \<Rightarrow> \<lparr>thrown = Some TypeError, console_error = [], page = doc\<rparr>
          | Some m \<Rightarrow>
             let doc1 = doc\<lparr>framework_value := or_string (framework m) ''Loading...''\<rparr> in
             (case stats d of
                None \<Rightarrow> \<lparr>thrown = Some TypeError, console_error = [], page = doc1\<rparr>
              | Some s \<Rightarrow>
                 let doc2 = doc1\<lparr>pass_count := or_number (Some (Finite (pass s))) ''0''\<rparr>;
                     doc3 = doc2\<lparr>fail_count := or_number (Some (Finite (fail s))) ''0''\<rparr>;
                     doc4 = doc3\<lparr>total_count := or_number (Some (js_add (pass s) (fail s))) ''0''\<rparr>;
                     overallStatus = (if fail s > 0 then ''FAIL'' else ''PASS'');
                     doc5 = doc4\<lparr>status_value :=
                              [\<lparr>tag = ''span'',
                                className = ''status-'' @ toLowerCase overallStatus,
                                ident = [], onclick = [], display = [],
                                textContent = overallStatus\<rparr>]\<rparr>;
                     doc6 = doc5\<lparr>files_count := or_number (map_option Finite (files_scanned m)) ''0''\<rparr>;
                     doc7 = doc6\<lparr>path_value := or_string (target_path m) ''Unknown''\<rparr>;
                     doc8 = doc7\<lparr>integrity_hash_el := or_string (integrity_hash m) ''N/A''\<rparr>;
                     doc9 = doc8\<lparr>findings_tbody := appendRows (findings d) (findings_tbody doc8)\<rparr>;
                     doc10 = doc9\<lparr>resultsChart :=
                               drawSimpleChart (pass s) (fail s) (resultsChart doc9)\<rparr>;
                     failedFindings = filter (\<lambda>finding. status finding = ''FAIL'') (findings d)
                 in if length failedFindings > 0 then
                      \<lparr>thrown = None, console_error = [],
                       page = doc10\<lparr>recommendations_list := insertItems failedFindings [],
                                   recommendations_section_placeholder := ''block''\<rparr>\<rparr>
                    else
                      \<lparr>thrown = None, console_error = [],
                       page = doc10\<lparr>recommendations_section_placeholder := ''none''\<rparr>\<rparr>)))"

subsection \<open>\<open>toggleEvidence\<close>\<close>

text \<open>
  The rows of the table body when the model reads all of them; \<open>None\<close> when one holds
  unread markup, whose elements and ids are not known.
\<close>

fun read_rows :: "tr list \<Rightarrow> row list option" where
  "read_rows [] = Some []"
| "read_rows (Tr r # ts) = map_option ((#) r) (read_rows ts)"
| "read_rows (TrMarkup m # ts) = None"

text \<open>
  The button handed to \<open>toggleEvidence\<close> is a child of an actions cell: it is addressed by
  the index of its row in the table body and its position among the children of the cell.
\<close>

type_synonym element_ref = "nat \<times> nat"

definition element_at :: "row list \<Rightarrow> element_ref \<Rightarrow> element" where
  "element_at rows r = actions_cell (rows ! fst r) ! snd r"

definition update_element :: "element_ref \<Rightarrow> (element \<Rightarrow> element) \<Rightarrow> row list \<Rightarrow> row list" where
  "update_element r g rows =
     (let cell = actions_cell (rows ! fst r)
      in rows[fst r := (rows ! fst r)\<lparr>actions_cell := cell[snd r := g (cell ! snd r)]\<rparr>])"

text \<open>\<^verbatim>\<open>nextElementSibling\<close>: the next child of the same cell, \<^verbatim>\<open>null\<close> after the last.\<close>

definition nextElementSibling :: "row list \<Rightarrow> element_ref \<Rightarrow> element option" where
  "nextElementSibling rows r =
     (if fst r < length rows \<and> Suc (snd r) < length (actions_cell (rows ! fst r))
      then Some (actions_cell (rows ! fst r) ! Suc (snd r))
      else None)"

text \<open>
  \<^verbatim>\<open>document.getElementById\<close>: the first element in document order that carries the id,
  \<^verbatim>\<open>null\<close> when there is none or the id is empty. The search runs over the children of
  the actions cells; the other elements of the page carry no id or one of the fixed ids
  of the template, none of which starts with \<^verbatim>\<open>details-\<close>.
\<close>

fun find_ident :: "string \<Rightarrow> element list \<Rightarrow> nat option" where
  "find_ident x [] = None"
| "find_ident x (e # es) = (if ident e = x then Some 0 else map_option Suc (find_ident x es))"

fun find_in_rows :: "string \<Rightarrow> row list \<Rightarrow> element_ref option" where
  "find_in_rows x [] = None"
| "find_in_rows x (r # rs) =
     (case find_ident x (actions_cell r) of
        Some k \<Rightarrow> Some (0, k)
      | None \<Rightarrow> map_option (\<lambda>p. (Suc (fst p), snd p)) (find_in_rows x rs))"

definition getElementById :: "row list \<Rightarrow> string \<Rightarrow> element_ref option" where
  "getElementById rows x = (if x = [] then None else find_in_rows x rows)"

text \<open>
  The result is \<open>None\<close> when the table body holds unread markup. Otherwise the call
  either throws, on dereferencing \<^verbatim>\<open>null\<close> and in both places before anything is written,
  or returns with the block and the button changed.
\<close>

definition toggleEvidence :: "element_ref \<Rightarrow> document \<Rightarrow> (js_error + document) option" where
  "toggleEvidence button doc =
     (case read_rows (findings_tbody doc) of
        None \<Rightarrow> None
      | Some rows \<Rightarrow> Some
         (case nextElementSibling rows button of
            None \<Rightarrow> Inl TypeError
          | Some sibling \<Rightarrow>
              let detailsId = ident sibling in
              (case getElementById rows detailsId of
                 None \<Rightarrow> Inl TypeError
               | Some detailsDiv \<Rightarrow>
                   if display (element_at rows detailsDiv) = ''none''
                      \<or> display (element_at rows detailsDiv) = []
                   then Inr (doc\<lparr>findings_tbody := map Tr
                          (update_element button (\<lambda>e. e\<lparr>textContent := ''Hide Evidence''\<rparr>)
                            (update_element detailsDiv (\<lambda>e. e\<lparr>display := ''block''\<rparr>) rows))\<rparr>)
                   else Inr (doc\<lparr>findings_tbody := map Tr
                          (update_element button (\<lambda>e. e\<lparr>textContent := ''Show Evidence''\<rparr>)
                            (update_element detailsDiv (\<lambda>e. e\<lparr>display := ''none''\<rparr>) rows))\<rparr>))))"

text \<open>A number of clicks on the same button, stopping at the first exception.\<close>

fun toggle_times :: "nat \<Rightarrow> element_ref \<Rightarrow> document \<Rightarrow> (js_error + document) option" where
  "toggle_times 0 button doc = Some (Inr doc)"
| "toggle_times (Suc n) button doc =
     (case toggleEvidence button doc of
        None \<Rightarrow> None
      | Some (Inl e) \<Rightarrow> Some (Inl e)
      | Some (Inr doc') \<Rightarrow> toggle_times n button doc')"

text \<open>The two states of an evidence block, read off \<^verbatim>\<open>style.display\<close>.\<close>

definition collapsed :: "element \<Rightarrow> bool" where
  "collapsed e = (display e = ''none'' \<or> display e = [])"

definition expanded :: "element \<Rightarrow> bool" where
  "expanded e = (display e = ''block'')"

subsection \<open>The globals of the script\<close>

datatype script_function = Fn_renderReport | Fn_toggleEvidence | Fn_drawSimpleChart

text \<open>The three assignments to properties of \<^verbatim>\<open>window\<close> that end the script.\<close>

definition script_exports :: "(string \<rightharpoonup> script_function) \<Rightarrow> (string \<rightharpoonup> script_function)" where
  "script_exports window =
     window(''renderReport'' \<mapsto> Fn_renderReport,
            ''toggleEvidence'' \<mapsto> Fn_toggleEvidence,
            ''drawSimpleChart'' \<mapsto> Fn_drawSimpleChart)"

subsection \<open>Notions used to state the properties\<close>


text \<open>
  The actions cell of row \<open>i\<close> holds a button \<open>b\<close> followed by an element \<open>e\<close>, and
  the id of \<open>e\<close> resolves to \<open>e\<close> itself.
\<close>

definition wired :: "nat \<Rightarrow> row list \<Rightarrow> element \<Rightarrow> element \<Rightarrow> bool" where
  "wired i rows b e \<longleftrightarrow>
     i < length rows
     \<and> actions_cell (rows ! i) = [b, e]
     \<and> getElementById rows (ident e) = Some (i, 1)"

text \<open>The decimal number a string of digits denotes.\<close>

definition decimal_value :: "string \<Rightarrow> int" where
  "decimal_value s = foldl (\<lambda>a c. 10 * a + (of_char c - 48)) 0 s"

subsection \<open>Sample inputs\<close>

text \<open>The page as the template delivers it, with a canvas of the default size.\<close>

definition blank_page :: document where
  "blank_page =
     \<lparr>framework_value = [], pass_count = [], fail_count = [], total_count = [],
      status_value = [], files_count = [], path_value = [], integrity_hash_el = [],
      findings_tbody = [],
      resultsChart = Some \<lparr>width = 300, height = 150, calls = []\<rparr>,
      recommendations_section_placeholder = [], recommendations_list = []\<rparr>"


definition finding_CC15 :: finding where
  "finding_CC15 =
     \<lparr>finding_id = ''CC1.5'', finding_type = ''process'', control = ''Commit signing'',
      status = ''FAIL'', evidence = Some (JObj [(''file'', JStr ''a.go'')])\<rparr>"

definition finding_CC61 :: finding where
  "finding_CC61 =
     \<lparr>finding_id = ''CC6.1'', finding_type = ''code'', control = ''Auth required'',
      status = ''PASS'', evidence = None\<rparr>"

definition finding_constructor :: finding where
  "finding_constructor =
     \<lparr>finding_id = ''constructor'', finding_type = ''code'', control = ''Constructor review'',
      status = ''FAIL'', evidence = None\<rparr>"

definition sample_metadata :: metadata where
  "sample_metadata =
     \<lparr>framework = Some ''SOC2'', files_scanned = Some 12, target_path = Some ''/app'',
      integrity_hash = Some ''abc123''\<rparr>"

definition sample_report :: report where
  "sample_report =
     \<lparr>metadata = Some sample_metadata, stats = Some \<lparr>pass = 2, fail = 1\<rparr>,
      findings = [finding_CC15, finding_CC61]\<rparr>"

definition passing_report :: report where
  "passing_report =
     \<lparr>metadata = Some sample_metadata, stats = Some \<lparr>pass = 1, fail = 0\<rparr>,
      findings = [finding_CC61]\<rparr>"

definition constructor_report :: report where
  "constructor_report =
     \<lparr>metadata = Some sample_metadata, stats = Some \<lparr>pass = 0, fail = 1\<rparr>,
      findings = [finding_constructor]\<rparr>"

definition report_without_stats :: report where
  "report_without_stats = \<lparr>metadata = Some sample_metadata, stats = None, findings = []\<rparr>"

definition report_without_metadata :: report where
  "report_without_metadata =
     \<lparr>metadata = None, stats = Some \<lparr>pass = 2, fail = 1\<rparr>, findings = []\<rparr>"

text \<open>Counts whose sum is not a double: \<open>2^53\<close> and 1.\<close>

definition big_report :: report where
  "big_report =
     \<lparr>metadata = Some sample_metadata,
      stats = Some \<lparr>pass = 9007199254740992, fail = 1\<rparr>, findings = []\<rparr>"

text \<open>Findings with markup characters: in the evidence, and in the id.\<close>

definition finding_include :: finding where
  "finding_include =
     \<lparr>finding_id = ''CC7.2'', finding_type = ''code'', control = ''Header review'',
      status = ''FAIL'', evidence = Some (JObj [(''match'', JStr ''#include <stdio.h>'')])\<rparr>"

definition finding_quoted :: finding where
  "finding_quoted =
     \<lparr>finding_id = ''X'' @ dquote @ ''1'', finding_type = ''code'', control = ''Quoted id'',
      status = ''FAIL'', evidence = Some (JStr ''none'')\<rparr>"

definition markup_report :: report where
  "markup_report =
     \<lparr>metadata = Some sample_metadata, stats = Some \<lparr>pass = 0, fail = 2\<rparr>,
      findings = [finding_include, finding_quoted]\<rparr>"

section \<open>Properties\<close>

subsection \<open>Auxiliary facts\<close>

lemma toLowerCase_FAIL: "toLowerCase ''FAIL'' = ''fail''"
  by code_simp

lemma toLowerCase_PASS: "toLowerCase ''PASS'' = ''pass''"
  by code_simp

lemma Number_toString_0: "Number_toString 0 = ''0''"
  by code_simp

lemma decimal_digits_3: "decimal_digits 3 = ''3''"
  by code_simp

lemma digit_value:
  assumes "d < 10"
  shows "of_char (digit_char d) - 48 = int d"
proof -
  from assms have "d = 0 \<or> d = 1 \<or> d = 2 \<or> d = 3 \<or> d = 4 \<or> d = 5 \<or> d = 6 \<or> d = 7
    \<or> d = 8 \<or> d = 9" by arith
  then show ?thesis by (elim disjE) (simp_all add: digit_char_def)
qed

lemma decimal_value_snoc: "decimal_value (s @ [c]) = 10 * decimal_value s + (of_char c - 48)"
  by (simp add: decimal_value_def)

text \<open>The digits printed for a number denote that number.\<close>

lemma decimal_value_decimal_digits: "0 \<le> n \<Longrightarrow> decimal_value (decimal_digits n) = n"
proof (induction n rule: decimal_digits.induct)
  case (1 n)
  show ?case
  proof (cases "n < 10")
    case True
    then have d: "decimal_digits n = [digit_char (nat n)]"
      by (simp add: decimal_digits.simps [of n])
    from True have "nat n < 10" by simp
    then have "of_char (digit_char (nat n)) - 48 = int (nat n)"
      by (rule digit_value)
    with "1.prems" show ?thesis
      by (simp add: d decimal_value_def)
  next
    case False
    then have d: "decimal_digits n = decimal_digits (n div 10) @ [digit_char (nat (n mod 10))]"
      by (simp add: decimal_digits.simps [of n])
    from False have "0 \<le> n div 10" by simp
    with "1.IH" False have ih: "decimal_value (decimal_digits (n div 10)) = n div 10" by simp
    have "nat (n mod 10) < 10" by simp
    then have "of_char (digit_char (nat (n mod 10))) - 48 = int (nat (n mod 10))"
      by (rule digit_value)
    then show ?thesis
      by (simp add: d decimal_value_snoc ih)
  qed
qed

text \<open>Below \<open>2^53\<close> addition is exact and numbers print with all their digits.\<close>

lemma js_add_exact:
  assumes "\<bar>a + b\<bar> < 2 ^ 53"
  shows "js_add a b = Finite (a + b)"
proof -
  have "(2::int) ^ 53 < 2 ^ 1024" by simp
  with assms have "\<bar>a + b\<bar> < 2 ^ 1024" by linarith
  with assms show ?thesis
    by (auto simp add: js_add_def round_double_def round_magnitude_def Let_def)
qed

lemma Number_toString_digits:
  assumes "0 \<le> i" and "i < 2 ^ 53"
  shows "Number_toString i = decimal_digits i"
  using assms by (simp add: Number_toString_def magnitude_toString_def)

lemma decimal_digits_0: "decimal_digits 0 = ''0''"
  by code_simp

lemma js_add_big: "js_add 9007199254740992 1 = Finite 9007199254740992"
  by code_simp

lemma Number_toString_big: "Number_toString 9007199254740992 = ''9007199254740992''"
  by code_simp

lemma decimal_digits_big: "decimal_digits 9007199254740993 = ''9007199254740993''"
  by code_simp

lemma SerializeJSON_sample:
  "SerializeJSON [] (JObj [(''file'', JStr ''a.go'')])
   = ''{'' @ newline @ ''  '' @ [CHR 0x22] @ ''file'' @ [CHR 0x22] @ '': ''
       @ [CHR 0x22] @ ''a.go'' @ [CHR 0x22] @ newline @ ''}''"
  by code_simp

text \<open>The two loops of \<open>renderReport\<close> append, in order.\<close>

lemma appendRows_eq: "appendRows fs tbody = tbody @ map finding_row fs"
  by (induction fs arbitrary: tbody) simp_all

lemma insertItems_eq: "insertItems fs lst = lst @ map recommendation_item fs"
  by (induction fs arbitrary: lst) simp_all

text \<open>What a call that runs to its end leaves in the table and in the recommendations.\<close>

lemma renderReport_returns:
  assumes "metadata d = Some m" and "stats d = Some s"
  shows "thrown (renderReport (Some d) doc) = None"
  using assms by (simp add: renderReport_def Let_def)

lemma renderReport_total:
  assumes "metadata d = Some m" and "stats d = Some s"
  shows "total_count (page (renderReport (Some d) doc))
         = or_number (Some (js_add (pass s) (fail s))) ''0''"
  using assms by (simp add: renderReport_def Let_def)

lemma renderReport_tbody:
  assumes "metadata d = Some m" and "stats d = Some s"
  shows "findings_tbody (page (renderReport (Some d) doc))
         = findings_tbody doc @ map finding_row (findings d)"
  using assms by (simp add: renderReport_def Let_def appendRows_eq)

lemma renderReport_recommendations:
  assumes "metadata d = Some m" and "stats d = Some s"
  shows "recommendations_list (page (renderReport (Some d) doc))
         = (if filter (\<lambda>f. status f = ''FAIL'') (findings d) = [] then recommendations_list doc
            else map recommendation_item (filter (\<lambda>f. status f = ''FAIL'') (findings d)))"
    and "recommendations_section_placeholder (page (renderReport (Some d) doc))
         = (if filter (\<lambda>f. status f = ''FAIL'') (findings d) = [] then ''none'' else ''block'')"
  using assms by (simp_all add: renderReport_def Let_def insertItems_eq)

lemma sample_report_fields:
  "metadata sample_report = Some sample_metadata"
  "stats sample_report = Some \<lparr>pass = 2, fail = 1\<rparr>"
  "findings sample_report = [finding_CC15, finding_CC61]"
  by (simp_all add: sample_report_def)

lemma passing_report_fields:
  "metadata passing_report = Some sample_metadata"
  "stats passing_report = Some \<lparr>pass = 1, fail = 0\<rparr>"
  "findings passing_report = [finding_CC61]"
  by (simp_all add: passing_report_def)

lemma big_report_fields:
  "metadata big_report = Some sample_metadata"
  "stats big_report = Some \<lparr>pass = 9007199254740992, fail = 1\<rparr>"
  by (simp_all add: big_report_def)

lemma markup_report_fields:
  "metadata markup_report = Some sample_metadata"
  "stats markup_report = Some \<lparr>pass = 0, fail = 2\<rparr>"
  "findings markup_report = [finding_include, finding_quoted]"
  by (simp_all add: markup_report_def)

lemma constructor_report_fields:
  "metadata constructor_report = Some sample_metadata"
  "stats constructor_report = Some \<lparr>pass = 0, fail = 1\<rparr>"
  "findings constructor_report = [finding_constructor]"
  by (simp_all add: constructor_report_def)

subsection \<open>The summary fields\<close>

text \<open>
  \<^bold>\<open>C6.\<close> Called with \<^verbatim>\<open>null\<close> or \<^verbatim>\<open>undefined\<close>, \<open>renderReport\<close> writes one diagnostic
  line to the console, leaves every part of the page as it was, and throws nothing.
\<close>

theorem renderReport_no_data:
  "thrown (renderReport None doc) = None
   \<and> console_error (renderReport None doc) = [''No data provided to renderReport.'']
   \<and> page (renderReport None doc) = doc"
  by (simp add: renderReport_def)

text \<open>
  \<^bold>\<open>C10.\<close> The guard covers the missing report only. A report object without
  \<^verbatim>\<open>metadata\<close> makes \<open>renderReport\<close> throw a TypeError before anything is written. A
  report object with \<^verbatim>\<open>metadata\<close> but without \<^verbatim>\<open>stats\<close> makes it throw a TypeError
  after the framework field has been written: the page is left with that one field changed.
\<close>

theorem renderReport_missing_field:
  "(metadata d = None \<longrightarrow>
      thrown (renderReport (Some d) doc) = Some TypeError
      \<and> page (renderReport (Some d) doc) = doc)
   \<and> (metadata d = Some m \<and> stats d = None \<longrightarrow>
      thrown (renderReport (Some d) doc) = Some TypeError
      \<and> page (renderReport (Some d) doc)
          = doc\<lparr>framework_value := or_string (framework m) ''Loading...''\<rparr>)"
  by (simp add: renderReport_def)

theorem renderReport_missing_field_witness:
  "metadata report_without_metadata = None
   \<and> thrown (renderReport (Some report_without_metadata) blank_page) = Some TypeError
   \<and> page (renderReport (Some report_without_metadata) blank_page) = blank_page
   \<and> metadata report_without_stats = Some sample_metadata
   \<and> stats report_without_stats = None
   \<and> thrown (renderReport (Some report_without_stats) blank_page) = Some TypeError
   \<and> framework_value (page (renderReport (Some report_without_stats) blank_page)) = ''SOC2''
   \<and> page (renderReport (Some report_without_stats) blank_page) \<noteq> blank_page"
proof -
  have m0: "metadata report_without_metadata = None"
    by (simp add: report_without_metadata_def)
  have m1: "metadata report_without_stats = Some sample_metadata"
    and s1: "stats report_without_stats = None"
    by (simp_all add: report_without_stats_def)
  have fw: "or_string (framework sample_metadata) ''Loading...'' = ''SOC2''"
    by (simp add: or_string_def sample_metadata_def)
  have ne: "blank_page\<lparr>framework_value := ''SOC2''\<rparr> \<noteq> blank_page"
  proof
    assume "blank_page\<lparr>framework_value := ''SOC2''\<rparr> = blank_page"
    then have "framework_value (blank_page\<lparr>framework_value := ''SOC2''\<rparr>) = framework_value blank_page"
      by simp
    then show False by (simp add: blank_page_def)
  qed
  from renderReport_missing_field [where d = report_without_metadata and doc = blank_page]
    renderReport_missing_field
      [where d = report_without_stats and doc = blank_page and m = sample_metadata]
  show ?thesis using m0 m1 s1 fw ne by simp
qed

text \<open>
  \<^bold>\<open>C4.\<close> For a report with \<^verbatim>\<open>metadata\<close> and \<^verbatim>\<open>stats\<close>, the status field holds a single
  badge. Its text is FAIL exactly when \<^verbatim>\<open>stats.fail > 0\<close> and PASS exactly when not, and its
  class is \<^verbatim>\<open>status-\<close> followed by the text in lower case.
\<close>

theorem overall_status_badge:
  assumes "metadata d = Some m" and "stats d = Some s"
  shows "\<exists>badge. status_value (page (renderReport (Some d) doc)) = [badge]
           \<and> (textContent badge = ''FAIL'' \<longleftrightarrow> fail s > 0)
           \<and> (textContent badge = ''PASS'' \<longleftrightarrow> \<not> fail s > 0)
           \<and> className badge = ''status-'' @ toLowerCase (textContent badge)"
  using assms by (simp add: renderReport_def Let_def)

theorem overall_status_badge_witness:
  "metadata sample_report = Some sample_metadata
   \<and> stats sample_report = Some \<lparr>pass = 2, fail = 1\<rparr>
   \<and> (\<exists>badge. status_value (page (renderReport (Some sample_report) blank_page)) = [badge]
         \<and> textContent badge = ''FAIL'' \<and> className badge = ''status-fail'')"
proof -
  from overall_status_badge [OF sample_report_fields(1,2), of blank_page]
  obtain badge where
    "status_value (page (renderReport (Some sample_report) blank_page)) = [badge]"
    and "textContent badge = ''FAIL''"
    and "className badge = ''status-'' @ toLowerCase (textContent badge)"
    by auto
  then show ?thesis by (auto simp add: sample_report_fields toLowerCase_FAIL)
qed

text \<open>
  \<^bold>\<open>C5.\<close> For a report whose \<^verbatim>\<open>stats.pass\<close> and \<^verbatim>\<open>stats.fail\<close> are integers from 0 on
  with a sum below \<open>2^53\<close>, the total field shows the decimal digits of
  \<^verbatim>\<open>stats.pass + stats.fail\<close>; when both are 0 it shows the string \<^verbatim>\<open>0\<close>.
\<close>

theorem total_count_is_sum:
  assumes "metadata d = Some m" and "stats d = Some s" and "0 \<le> pass s" and "0 \<le> fail s"
    and "pass s + fail s < 2 ^ 53"
  shows "total_count (page (renderReport (Some d) doc)) = decimal_digits (pass s + fail s)
         \<and> decimal_value (total_count (page (renderReport (Some d) doc))) = pass s + fail s
         \<and> (pass s = 0 \<and> fail s = 0 \<longrightarrow> total_count (page (renderReport (Some d) doc)) = ''0'')"
proof -
  from assms(3,4,5) have "\<bar>pass s + fail s\<bar> < 2 ^ 53" by simp
  then have add: "js_add (pass s) (fail s) = Finite (pass s + fail s)"
    by (rule js_add_exact)
  from assms(3,4,5) have pr: "Number_toString (pass s + fail s) = decimal_digits (pass s + fail s)"
    by (intro Number_toString_digits) simp_all
  have t: "total_count (page (renderReport (Some d) doc)) = decimal_digits (pass s + fail s)"
    unfolding renderReport_total [OF assms(1,2)] add
    by (simp add: or_number_def pr decimal_digits_0)
  moreover have "decimal_value (decimal_digits (pass s + fail s)) = pass s + fail s"
    using assms(3,4) by (intro decimal_value_decimal_digits) simp
  ultimately show ?thesis by (simp add: decimal_digits_0)
qed

theorem total_count_is_sum_witness:
  "metadata sample_report = Some sample_metadata
   \<and> stats sample_report = Some \<lparr>pass = 2, fail = 1\<rparr>
   \<and> (0::int) \<le> 2 \<and> (0::int) \<le> 1 \<and> (2::int) + 1 < 2 ^ 53
   \<and> total_count (page (renderReport (Some sample_report) blank_page)) = ''3''"
proof -
  have "0 \<le> pass \<lparr>pass = 2, fail = 1\<rparr>" and "0 \<le> fail \<lparr>pass = 2, fail = 1\<rparr>"
    and "pass \<lparr>pass = 2, fail = 1\<rparr> + fail \<lparr>pass = 2, fail = 1\<rparr> < 2 ^ 53"
    by simp_all
  from total_count_is_sum [OF sample_report_fields(1,2) this, of blank_page]
  have "total_count (page (renderReport (Some sample_report) blank_page)) = decimal_digits 3"
    by simp
  then show ?thesis by (simp add: sample_report_fields decimal_digits_3)
qed

text \<open>
  Without the bound the field can differ from the sum: for \<open>2^53\<close> passed and 1 failed
  the sum \<open>2^53 + 1\<close> is not a double, the addition yields \<open>2^53\<close>, and that is shown.
\<close>

theorem total_count_rounds:
  "stats big_report = Some \<lparr>pass = 9007199254740992, fail = 1\<rparr>
   \<and> total_count (page (renderReport (Some big_report) blank_page)) = ''9007199254740992''
   \<and> decimal_digits (9007199254740992 + 1) = ''9007199254740993''
   \<and> total_count (page (renderReport (Some big_report) blank_page))
       \<noteq> decimal_digits (9007199254740992 + 1)"
proof -
  have "total_count (page (renderReport (Some big_report) blank_page)) = ''9007199254740992''"
    unfolding renderReport_total [OF big_report_fields]
    by (simp add: js_add_big or_number_def Number_toString_big)
  moreover have "decimal_digits (9007199254740992 + 1) = ''9007199254740993''"
    by (simp add: decimal_digits_big)
  ultimately show ?thesis by (simp add: big_report_fields)
qed

subsection \<open>The globals\<close>

text \<open>
  \<^bold>\<open>C3.\<close> The script binds exactly three globals: \<^verbatim>\<open>renderReport\<close>, \<^verbatim>\<open>toggleEvidence\<close>
  and \<^verbatim>\<open>drawSimpleChart\<close>, the last being the name under which the chart-drawing function
  is reachable.
\<close>

theorem script_exports_names:
  "script_exports window ''renderReport'' = Some Fn_renderReport
   \<and> script_exports window ''toggleEvidence'' = Some Fn_toggleEvidence
   \<and> script_exports window ''drawSimpleChart'' = Some Fn_drawSimpleChart
   \<and> dom (script_exports window)
       = dom window \<union> {''renderReport'', ''toggleEvidence'', ''drawSimpleChart''}"
  by (auto simp add: script_exports_def)

text \<open>No global named \<^verbatim>\<open>drawChart\<close> comes out of the script.\<close>

theorem script_exports_no_drawChart:
  "script_exports Map.empty ''drawChart'' = None
   \<and> script_exports Map.empty ''drawChart'' \<noteq> Some Fn_drawSimpleChart"
  by (simp add: script_exports_def)


subsection \<open>The findings table\<close>

lemma finding_row_as_written: "row_as_written f \<Longrightarrow> finding_row f = Tr (finding_cells f)"
  by (simp add: finding_row_def)

lemma finding_cells_cells:
  "id_cell (finding_cells f) = finding_id f
   \<and> type_cell (finding_cells f) = finding_type f
   \<and> control_cell (finding_cells f) = control f
   \<and> textContent (status_cell (finding_cells f)) = status f"
  by (simp add: finding_cells_def)

lemma finding_cells_FAIL:
  assumes "status f = ''FAIL''"
  shows "\<exists>button block. actions_cell (finding_cells f) = [button, block]
       \<and> tag button = ''button'' \<and> onclick button = ''toggleEvidence(this)''
       \<and> textContent button = ''Show Evidence''
       \<and> tag block = ''div'' \<and> className block = ''evidence-details''
       \<and> ident block = ''details-'' @ finding_id f \<and> collapsed block
       \<and> textContent block = ToString (JSON_stringify (evidence f))"
  using assms by (simp add: finding_cells_def collapsed_def)

lemma finding_cells_PASS:
  assumes "status f = ''PASS''"
  shows "\<exists>marker. actions_cell (finding_cells f) = [marker]
       \<and> tag marker = ''span'' \<and> textContent marker = ''N/A''"
  using assms by (simp add: finding_cells_def)

text \<open>Every call appends exactly one row per finding, whatever the findings hold.\<close>

lemma one_row_per_finding:
  assumes "metadata d = Some m" and "stats d = Some s"
  shows "length (findings_tbody (page (renderReport (Some d) doc)))
         = length (findings_tbody doc) + length (findings d)"
  using renderReport_tbody [OF assms, of doc] by simp

text \<open>
  For findings whose strings hold no markup characters, and whose statuses are PASS or
  FAIL, the appended rows are the ones the template spells out, in the order of the input.
  The row of a FAIL finding has, in its actions cell, a toggle button directly followed by
  an evidence block with the id \<^verbatim>\<open>details-<id>\<close>, not yet displayed, whose text is the
  evidence as printed by \<^verbatim>\<open>JSON.stringify\<close> with an indentation of two spaces. The row of a
  PASS finding has the marker \<^verbatim>\<open>N/A\<close> as the only child of its actions cell.
\<close>

lemma rows_as_written:
  assumes "metadata d = Some m" and "stats d = Some s"
    and "\<forall>f \<in> set (findings d). row_as_written f"
    and "\<forall>f \<in> set (findings d). status f = ''PASS'' \<or> status f = ''FAIL''"
  shows "\<exists>rows. findings_tbody (page (renderReport (Some d) doc))
                  = findings_tbody doc @ map Tr rows
     \<and> length rows = length (findings d)
     \<and> (\<forall>i < length (findings d).
          id_cell (rows ! i) = finding_id (findings d ! i)
          \<and> type_cell (rows ! i) = finding_type (findings d ! i)
          \<and> control_cell (rows ! i) = control (findings d ! i)
          \<and> textContent (status_cell (rows ! i)) = status (findings d ! i)
          \<and> ((status (findings d ! i) = ''FAIL''
               \<and> (\<exists>button block. actions_cell (rows ! i) = [button, block]
                    \<and> tag button = ''button'' \<and> onclick button = ''toggleEvidence(this)''
                    \<and> textContent button = ''Show Evidence''
                    \<and> tag block = ''div'' \<and> className block = ''evidence-details''
                    \<and> ident block = ''details-'' @ finding_id (findings d ! i)
                    \<and> collapsed block
                    \<and> textContent block = ToString (JSON_stringify (evidence (findings d ! i)))))
             \<or> (status (findings d ! i) = ''PASS''
               \<and> (\<exists>marker. actions_cell (rows ! i) = [marker]
                    \<and> tag marker = ''span'' \<and> textContent marker = ''N/A''))))"
proof (intro exI conjI allI impI)
  have "map finding_row (findings d) = map (\<lambda>f. Tr (finding_cells f)) (findings d)"
    using assms(3) by (simp add: finding_row_as_written)
  then show "findings_tbody (page (renderReport (Some d) doc))
        = findings_tbody doc @ map Tr (map finding_cells (findings d))"
    by (simp add: renderReport_tbody [OF assms(1,2)] comp_def)
next
  show "length (map finding_cells (findings d)) = length (findings d)" by simp
next
  fix i assume i: "i < length (findings d)"
  then have row: "map finding_cells (findings d) ! i = finding_cells (findings d ! i)" by simp
  show "id_cell (map finding_cells (findings d) ! i) = finding_id (findings d ! i)"
    and "type_cell (map finding_cells (findings d) ! i) = finding_type (findings d ! i)"
    and "control_cell (map finding_cells (findings d) ! i) = control (findings d ! i)"
    and "textContent (status_cell (map finding_cells (findings d) ! i)) = status (findings d ! i)"
    by (simp_all only: row finding_cells_cells)
  from i assms(4) have "status (findings d ! i) = ''PASS'' \<or> status (findings d ! i) = ''FAIL''"
    by simp
  then show "(status (findings d ! i) = ''FAIL''
               \<and> (\<exists>button block. actions_cell (map finding_cells (findings d) ! i) = [button, block]
                    \<and> tag button = ''button'' \<and> onclick button = ''toggleEvidence(this)''
                    \<and> textContent button = ''Show Evidence''
                    \<and> tag block = ''div'' \<and> className block = ''evidence-details''
                    \<and> ident block = ''details-'' @ finding_id (findings d ! i)
                    \<and> collapsed block
                    \<and> textContent block = ToString (JSON_stringify (evidence (findings d ! i)))))
             \<or> (status (findings d ! i) = ''PASS''
               \<and> (\<exists>marker. actions_cell (map finding_cells (findings d) ! i) = [marker]
                    \<and> tag marker = ''span'' \<and> textContent marker = ''N/A''))"
    unfolding row using finding_cells_FAIL finding_cells_PASS by blast
qed

text \<open>The sample findings hold no markup characters; the two others do.\<close>

lemma evidence_text_sample:
  "ToString (JSON_stringify (Some (JObj [(''file'', JStr ''a.go'')])))
   = ''{'' @ newline @ ''  '' @ [CHR 0x22] @ ''file'' @ [CHR 0x22] @ '': ''
       @ [CHR 0x22] @ ''a.go'' @ [CHR 0x22] @ newline @ ''}''"
  by code_simp

lemma evidence_text_include:
  "ToString (JSON_stringify (Some (JObj [(''match'', JStr ''#include <stdio.h>'')])))
   = ''{'' @ newline @ ''  '' @ [CHR 0x22] @ ''match'' @ [CHR 0x22] @ '': ''
       @ [CHR 0x22] @ ''#include <stdio.h>'' @ [CHR 0x22] @ newline @ ''}''"
  by code_simp

lemma evidence_text_none:
  "ToString (JSON_stringify (Some (JStr ''none''))) = [CHR 0x22] @ ''none'' @ [CHR 0x22]"
  by code_simp

lemma sample_rows_as_written:
  "row_as_written finding_CC15" "row_as_written finding_CC61"
  by (simp_all add: row_as_written_def text_safe_def attr_safe_def finding_CC15_def
      finding_CC61_def evidence_text_sample newline_def)

lemma markup_rows_not_as_written:
  "\<not> row_as_written finding_include" "\<not> row_as_written finding_quoted"
  by (simp_all add: row_as_written_def text_safe_def attr_safe_def finding_include_def
      finding_quoted_def evidence_text_include newline_def dquote_def)

text \<open>
  \<^bold>\<open>C9.\<close> The strings of a finding go into the markup of its row without escaping. For a
  failed finding whose evidence holds \<^verbatim>\<open><stdio.h>\<close>, the markup assigned to the row has
  these characters inside the \<^verbatim>\<open>pre\<close> element, where they are the start of a tag and not
  text. For a failed finding with the id \<^verbatim>\<open>X"1\<close>, the markup has the \<^verbatim>\<open>id\<close> attribute
  end after \<^verbatim>\<open>details-X\<close>. Neither row is the row the template spells out.
\<close>

theorem markup_rows_unread:
  "findings_tbody (page (renderReport (Some markup_report) blank_page))
     = [TrMarkup (row_markup finding_include), TrMarkup (row_markup finding_quoted)]
   \<and> (\<exists>before after. row_markup finding_include
         = before @ ''<pre>{'' @ newline @ ''  '' @ dquote @ ''match'' @ dquote @ '': ''
             @ dquote @ ''#include <stdio.h>'' @ dquote @ newline @ ''}</pre>'' @ after)
   \<and> (\<exists>before after. row_markup finding_quoted
         = before @ ''<div class='' @ dquote @ ''evidence-details'' @ dquote
             @ '' id='' @ dquote @ ''details-X'' @ dquote @ ''1'' @ dquote @ ''>'' @ after)"
proof (intro conjI)
  show "findings_tbody (page (renderReport (Some markup_report) blank_page))
     = [TrMarkup (row_markup finding_include), TrMarkup (row_markup finding_quoted)]"
    using renderReport_tbody [OF markup_report_fields(1,2), of blank_page]
    by (simp add: markup_report_fields finding_row_def markup_rows_not_as_written blank_page_def)
next
  let ?before = "newline
         @ spaces 12 @ ''<td>CC7.2</td>'' @ newline
         @ spaces 12 @ ''<td>code</td>'' @ newline
         @ spaces 12 @ ''<td>Header review</td>'' @ newline
         @ spaces 12 @ ''<td><span class='' @ dquote @ ''status-fail'' @ dquote @ ''>''
             @ ''FAIL'' @ ''</span></td>'' @ newline
         @ spaces 12 @ ''<td>'' @ newline
         @ spaces 16
         @ ''<button class='' @ dquote @ ''toggle-details'' @ dquote
                @ '' onclick='' @ dquote @ ''toggleEvidence(this)'' @ dquote
                @ ''>Show Evidence</button>'' @ newline
         @ spaces 21 @ ''<div class='' @ dquote @ ''evidence-details'' @ dquote
                @ '' id='' @ dquote @ ''details-CC7.2'' @ dquote @ ''>'' @ newline
         @ spaces 24"
  let ?after = "newline @ spaces 21 @ ''</div>'' @ newline @ spaces 12 @ ''</td>'' @ newline
         @ spaces 8"
  have "row_markup finding_include
         = ?before @ ''<pre>{'' @ newline @ ''  '' @ dquote @ ''match'' @ dquote @ '': ''
             @ dquote @ ''#include <stdio.h>'' @ dquote @ newline @ ''}</pre>'' @ ?after"
    by (simp add: row_markup_def finding_include_def evidence_text_include dquote_def)
  then show "\<exists>before after. row_markup finding_include
         = before @ ''<pre>{'' @ newline @ ''  '' @ dquote @ ''match'' @ dquote @ '': ''
             @ dquote @ ''#include <stdio.h>'' @ dquote @ newline @ ''}</pre>'' @ after"
    by blast
next
  let ?before = "newline
         @ spaces 12 @ ''<td>X'' @ dquote @ ''1</td>'' @ newline
         @ spaces 12 @ ''<td>code</td>'' @ newline
         @ spaces 12 @ ''<td>Quoted id</td>'' @ newline
         @ spaces 12 @ ''<td><span class='' @ dquote @ ''status-fail'' @ dquote @ ''>''
             @ ''FAIL'' @ ''</span></td>'' @ newline
         @ spaces 12 @ ''<td>'' @ newline
         @ spaces 16
         @ ''<button class='' @ dquote @ ''toggle-details'' @ dquote
                @ '' onclick='' @ dquote @ ''toggleEvidence(this)'' @ dquote
                @ ''>Show Evidence</button>'' @ newline
         @ spaces 21"
  let ?after = "newline @ spaces 24 @ ''<pre>'' @ dquote @ ''none'' @ dquote @ ''</pre>''
         @ newline @ spaces 21 @ ''</div>'' @ newline @ spaces 12 @ ''</td>'' @ newline
         @ spaces 8"
  have "row_markup finding_quoted
         = ?before @ ''<div class='' @ dquote @ ''evidence-details'' @ dquote
             @ '' id='' @ dquote @ ''details-X'' @ dquote @ ''1'' @ dquote @ ''>'' @ ?after"
    by (simp add: row_markup_def finding_quoted_def evidence_text_none dquote_def)
  then show "\<exists>before after. row_markup finding_quoted
         = before @ ''<div class='' @ dquote @ ''evidence-details'' @ dquote
             @ '' id='' @ dquote @ ''details-X'' @ dquote @ ''1'' @ dquote @ ''>'' @ after"
    by blast
qed

subsection \<open>The evidence toggle\<close>

text \<open>The id lookup depends on the ids of the elements only, not on what a toggle changes.\<close>

lemma find_ident_cong:
  "map ident es = map ident es' \<Longrightarrow> find_ident x es = find_ident x es'"
proof (induction es arbitrary: es')
  case Nil
  then show ?case by simp
next
  case (Cons a es)
  then obtain a' es'' where "es' = a' # es''" by (cases es') auto
  with Cons show ?case by auto
qed

lemma find_in_rows_update:
  assumes "i < length rows"
    and "map ident (actions_cell r') = map ident (actions_cell (rows ! i))"
  shows "find_in_rows x (rows[i := r']) = find_in_rows x rows"
  using assms
proof (induction rows arbitrary: i)
  case Nil
  then show ?case by simp
next
  case (Cons r rows)
  show ?case
  proof (cases i)
    case 0
    with Cons.prems have "find_ident x (actions_cell r') = find_ident x (actions_cell r)"
      by (auto intro: find_ident_cong)
    with 0 show ?thesis by simp
  next
    case (Suc j)
    with Cons.prems have "find_in_rows x (rows[j := r']) = find_in_rows x rows"
      by (intro Cons.IH) auto
    with Suc show ?thesis by (simp split: option.split)
  qed
qed

lemma expanded_not_collapsed: "expanded e \<Longrightarrow> \<not> collapsed e"
  by (auto simp add: expanded_def collapsed_def)

lemma read_rows_Tr: "read_rows (map Tr rows) = Some rows"
  by (induction rows) simp_all

text \<open>One click: the block changes state, the button changes its label, the wiring stays.\<close>

lemma toggle_step:
  assumes r: "read_rows (findings_tbody doc) = Some rows" and w: "wired i rows b e"
  shows "\<exists>doc' rows' b' e'. toggleEvidence (i, 0) doc = Some (Inr doc')
           \<and> read_rows (findings_tbody doc') = Some rows' \<and> wired i rows' b' e'
           \<and> (collapsed e \<longrightarrow> expanded e' \<and> textContent b' = ''Hide Evidence'')
           \<and> (\<not> collapsed e \<longrightarrow> collapsed e' \<and> textContent b' = ''Show Evidence'')"
proof -
  let ?b = "b\<lparr>textContent := (if collapsed e then ''Hide Evidence'' else ''Show Evidence'')\<rparr>"
  let ?e = "e\<lparr>display := (if collapsed e then ''block'' else ''none'')\<rparr>"
  let ?r = "(rows ! i)\<lparr>actions_cell := [?b, ?e]\<rparr>"
  let ?rows = "rows[i := ?r]"
  let ?doc = "doc\<lparr>findings_tbody := map Tr ?rows\<rparr>"
  from w have i: "i < length rows" and cell: "actions_cell (rows ! i) = [b, e]"
    and get: "getElementById rows (ident e) = Some (i, 1)"
    by (simp_all add: wired_def)
  from get have ne: "ident e \<noteq> []" and find: "find_in_rows (ident e) rows = Some (i, 1)"
    by (auto simp add: getElementById_def split: if_splits)
  have step: "toggleEvidence (i, 0) doc = Some (Inr ?doc)"
    using r i cell get
    by (simp add: toggleEvidence_def nextElementSibling_def element_at_def update_element_def
        collapsed_def Let_def)
  have rd: "read_rows (findings_tbody ?doc) = Some ?rows"
    by (simp add: read_rows_Tr)
  have "map ident (actions_cell ?r) = map ident (actions_cell (rows ! i))"
    by (simp add: cell)
  with i have "find_in_rows (ident e) ?rows = Some (i, 1)"
    using find by (simp add: find_in_rows_update)
  with i ne have "wired i ?rows ?b ?e"
    by (simp add: wired_def getElementById_def)
  moreover have "collapsed e \<longrightarrow> expanded ?e \<and> textContent ?b = ''Hide Evidence''"
    by (simp add: expanded_def)
  moreover have "\<not> collapsed e \<longrightarrow> collapsed ?e \<and> textContent ?b = ''Show Evidence''"
    by (simp add: collapsed_def)
  ultimately show ?thesis using step rd by blast
qed

text \<open>Any number of clicks, from either state.\<close>

lemma toggle_times_parity:
  assumes "read_rows (findings_tbody doc) = Some rows" and "wired i rows b e"
  shows "\<exists>doc' rows' b' e'. toggle_times n (i, 0) doc = Some (Inr doc')
     \<and> read_rows (findings_tbody doc') = Some rows' \<and> wired i rows' b' e'
     \<and> (collapsed e \<and> textContent b = ''Show Evidence'' \<longrightarrow>
          (if even n then collapsed e' \<and> textContent b' = ''Show Evidence''
           else expanded e' \<and> textContent b' = ''Hide Evidence''))
     \<and> (expanded e \<and> textContent b = ''Hide Evidence'' \<longrightarrow>
          (if even n then expanded e' \<and> textContent b' = ''Hide Evidence''
           else collapsed e' \<and> textContent b' = ''Show Evidence''))"
  using assms
proof (induction n arbitrary: doc rows b e)
  case 0
  then show ?case by auto
next
  case (Suc n)
  from toggle_step [OF Suc.prems] obtain doc1 rows1 b1 e1 where
    step: "toggleEvidence (i, 0) doc = Some (Inr doc1)"
    and r1: "read_rows (findings_tbody doc1) = Some rows1" and w1: "wired i rows1 b1 e1"
    and c: "collapsed e \<longrightarrow> expanded e1 \<and> textContent b1 = ''Hide Evidence''"
    and x: "\<not> collapsed e \<longrightarrow> collapsed e1 \<and> textContent b1 = ''Show Evidence''"
    by blast
  from Suc.IH [OF r1 w1] obtain doc' rows' b' e' where
    run: "toggle_times n (i, 0) doc1 = Some (Inr doc')"
    and r': "read_rows (findings_tbody doc') = Some rows'" and w': "wired i rows' b' e'"
    and fromc: "collapsed e1 \<and> textContent b1 = ''Show Evidence'' \<longrightarrow>
          (if even n then collapsed e' \<and> textContent b' = ''Show Evidence''
           else expanded e' \<and> textContent b' = ''Hide Evidence'')"
    and fromx: "expanded e1 \<and> textContent b1 = ''Hide Evidence'' \<longrightarrow>
          (if even n then expanded e' \<and> textContent b' = ''Hide Evidence''
           else collapsed e' \<and> textContent b' = ''Show Evidence'')"
    by blast
  have "toggle_times (Suc n) (i, 0) doc = Some (Inr doc')"
    using step run by simp
  moreover have "collapsed e \<and> textContent b = ''Show Evidence'' \<longrightarrow>
          (if even (Suc n) then collapsed e' \<and> textContent b' = ''Show Evidence''
           else expanded e' \<and> textContent b' = ''Hide Evidence'')"
    using c fromx by auto
  moreover have "expanded e \<and> textContent b = ''Hide Evidence'' \<longrightarrow>
          (if even (Suc n) then expanded e' \<and> textContent b' = ''Hide Evidence''
           else collapsed e' \<and> textContent b' = ''Show Evidence'')"
    using x fromc expanded_not_collapsed [of e] by auto
  ultimately show ?case using r' w' by blast
qed

text \<open>In freshly built rows with distinct finding ids, each evidence id resolves to its own block.\<close>

lemma find_ident_finding_cells:
  assumes "x \<noteq> []"
  shows "find_ident x (actions_cell (finding_cells f))
         = (if status f = ''FAIL'' \<and> x = ''details-'' @ finding_id f then Some 1 else None)"
  using assms by (auto simp add: finding_cells_def)

lemma find_in_rendered_rows:
  assumes "distinct (map finding_id fs)" and "i < length fs" and "status (fs ! i) = ''FAIL''"
  shows "find_in_rows (''details-'' @ finding_id (fs ! i)) (map finding_cells fs) = Some (i, 1)"
  using assms
proof (induction fs arbitrary: i)
  case Nil
  then show ?case by simp
next
  case (Cons f fs)
  show ?case
  proof (cases i)
    case 0
    with Cons.prems show ?thesis by (simp add: find_ident_finding_cells)
  next
    case (Suc j)
    with Cons.prems have j: "j < length fs" and st: "status (fs ! j) = ''FAIL''"
      and d: "distinct (map finding_id fs)" by simp_all
    from j have "fs ! j \<in> set fs" by simp
    with Cons.prems have "finding_id f \<noteq> finding_id (fs ! j)"
      by auto
    then have "find_ident (''details-'' @ finding_id (fs ! j)) (actions_cell (finding_cells f)) = None"
      by (simp add: find_ident_finding_cells)
    moreover from Cons.IH [OF d j st]
    have "find_in_rows (''details-'' @ finding_id (fs ! j)) (map finding_cells fs) = Some (j, 1)" .
    ultimately show ?thesis using Suc by simp
  qed
qed

text \<open>
  On a page rendered once, from a report whose finding ids are distinct and whose strings
  hold no markup characters, the toggle of a FAIL row works as a two-state switch: after an
  odd number of clicks the block is displayed and the button reads \<^verbatim>\<open>Hide Evidence\<close>,
  after an even number the block is collapsed and the button reads \<^verbatim>\<open>Show Evidence\<close>.
\<close>

lemma toggle_parity_first_render:
  assumes "metadata d = Some m" and "stats d = Some s"
    and "findings_tbody doc = []"
    and "distinct (map finding_id (findings d))"
    and "\<forall>f \<in> set (findings d). row_as_written f"
    and "i < length (findings d)" and "status (findings d ! i) = ''FAIL''"
  shows "\<exists>doc' rows'. toggle_times n (i, 0) (page (renderReport (Some d) doc)) = Some (Inr doc')
     \<and> read_rows (findings_tbody doc') = Some rows'
     \<and> (odd n \<longrightarrow> expanded (element_at rows' (i, 1))
                  \<and> textContent (element_at rows' (i, 0)) = ''Hide Evidence'')
     \<and> (even n \<longrightarrow> collapsed (element_at rows' (i, 1))
                  \<and> textContent (element_at rows' (i, 0)) = ''Show Evidence'')"
proof -
  let ?doc = "page (renderReport (Some d) doc)"
  let ?f = "findings d ! i"
  let ?rows = "map finding_cells (findings d)"
  have "map finding_row (findings d) = map (\<lambda>f. Tr (finding_cells f)) (findings d)"
    using assms(5) by (simp add: finding_row_as_written)
  then have tb: "findings_tbody ?doc = map Tr ?rows"
    using renderReport_tbody [OF assms(1,2), of doc] assms(3) by (simp add: comp_def)
  then have rd: "read_rows (findings_tbody ?doc) = Some ?rows"
    by (simp only: read_rows_Tr)
  obtain b e where cell: "actions_cell (finding_cells ?f) = [b, e]"
    and b: "textContent b = ''Show Evidence''" and e: "collapsed e"
    and ide: "ident e = ''details-'' @ finding_id ?f"
    using assms(7) by (simp add: finding_cells_def collapsed_def)
  have "wired i ?rows b e"
    using assms(6) cell ide find_in_rendered_rows [OF assms(4,6,7)]
    by (simp add: wired_def getElementById_def)
  from toggle_times_parity [OF rd this, of n] obtain doc' rows' b' e' where
    run: "toggle_times n (i, 0) ?doc = Some (Inr doc')"
    and r': "read_rows (findings_tbody doc') = Some rows'" and w: "wired i rows' b' e'"
    and par: "if even n then collapsed e' \<and> textContent b' = ''Show Evidence''
           else expanded e' \<and> textContent b' = ''Hide Evidence''"
    using b e by blast
  from w have "element_at rows' (i, 0) = b'" and "element_at rows' (i, 1) = e'"
    by (simp_all add: wired_def element_at_def)
  with run r' par show ?thesis by auto
qed

text \<open>
  \<^bold>\<open>C8.\<close> On a page rendered twice the toggle of a FAIL row does not work as a two-state
  switch. After the sample report has been rendered a second time its FAIL finding has two
  rows, 0 and 2, whose evidence blocks carry the same id. One click on the button of row 2
  leaves the block of row 2 collapsed although the button now reads \<^verbatim>\<open>Hide Evidence\<close>:
  the id resolves to the block of row 0, and that one is displayed.
\<close>

theorem toggle_after_second_render:
  "\<exists>doc' rows'.
     toggleEvidence (2, 0)
       (page (renderReport (Some sample_report)
          (page (renderReport (Some sample_report) blank_page)))) = Some (Inr doc')
     \<and> read_rows (findings_tbody doc') = Some rows'
     \<and> ident (element_at rows' (2, 1)) = ''details-CC1.5''
     \<and> collapsed (element_at rows' (2, 1))
     \<and> textContent (element_at rows' (2, 0)) = ''Hide Evidence''
     \<and> ident (element_at rows' (0, 1)) = ''details-CC1.5''
     \<and> expanded (element_at rows' (0, 1))"
proof -
  let ?first = "page (renderReport (Some sample_report) blank_page)"
  let ?second = "page (renderReport (Some sample_report) ?first)"
  let ?fail = "finding_cells finding_CC15"
  let ?pass = "finding_cells finding_CC61"
  let ?button = "\<lparr>tag = ''button'', className = ''toggle-details'', ident = [],
                  onclick = ''toggleEvidence(this)'', display = [],
                  textContent = ''Show Evidence''\<rparr>"
  let ?block = "\<lparr>tag = ''div'', className = ''evidence-details'',
                  ident = ''details-CC1.5'', onclick = [], display = [],
                  textContent = ToString (JSON_stringify (evidence finding_CC15))\<rparr>"
  let ?rows = "[?fail, ?pass, ?fail, ?pass]"
  let ?rows' = "[?fail\<lparr>actions_cell := [?button, ?block\<lparr>display := ''block''\<rparr>]\<rparr>, ?pass,
                 ?fail\<lparr>actions_cell := [?button\<lparr>textContent := ''Hide Evidence''\<rparr>, ?block]\<rparr>,
                 ?pass]"
  have rows: "map finding_row (findings sample_report) = [Tr ?fail, Tr ?pass]"
    by (simp add: sample_report_fields finding_row_as_written sample_rows_as_written)
  have "findings_tbody ?first = [Tr ?fail, Tr ?pass]"
    using renderReport_tbody [OF sample_report_fields(1,2), of blank_page]
    by (simp add: rows blank_page_def)
  then have tb: "findings_tbody ?second = map Tr ?rows"
    using renderReport_tbody [OF sample_report_fields(1,2), of ?first]
    by (simp add: rows)
  then have rd: "read_rows (findings_tbody ?second) = Some ?rows"
    by (simp only: read_rows_Tr)
  have cf: "actions_cell ?fail = [?button, ?block]"
    by (simp add: finding_cells_def finding_CC15_def)
  have cp: "find_ident ''details-CC1.5'' (actions_cell ?pass) = None"
    by (simp add: finding_cells_def finding_CC61_def)
  have step: "toggleEvidence (2, 0) ?second = Some (Inr (?second\<lparr>findings_tbody := map Tr ?rows'\<rparr>))"
    unfolding toggleEvidence_def rd
    by (simp add: nextElementSibling_def getElementById_def element_at_def update_element_def
        cf cp Let_def)
  have "read_rows (findings_tbody (?second\<lparr>findings_tbody := map Tr ?rows'\<rparr>))
        = read_rows (map Tr ?rows')"
    by simp
  then have "read_rows (findings_tbody (?second\<lparr>findings_tbody := map Tr ?rows'\<rparr>)) = Some ?rows'"
    by (simp only: read_rows_Tr)
  moreover have "ident (element_at ?rows' (2, 1)) = ''details-CC1.5''"
    and "collapsed (element_at ?rows' (2, 1))"
    and "textContent (element_at ?rows' (2, 0)) = ''Hide Evidence''"
    and "ident (element_at ?rows' (0, 1)) = ''details-CC1.5''"
    and "expanded (element_at ?rows' (0, 1))"
    by (simp_all add: element_at_def collapsed_def expanded_def)
  ultimately show ?thesis using step by blast
qed

subsection \<open>The chart\<close>




subsection \<open>Repeated rendering\<close>

text \<open>
  \<^bold>\<open>C1.\<close> A second call of \<open>renderReport\<close> does not replace what the first one rendered.
  The sample report (two findings) followed by a report with one PASS finding leaves three
  rows in the table body, not one; the recommendation written for the first report is still
  in the list, which is emptied only when the new report has a FAIL finding.
\<close>

theorem renderReport_twice_accumulates:
  "findings_tbody
     (page (renderReport (Some passing_report)
        (page (renderReport (Some sample_report) blank_page))))
     = [finding_row finding_CC15, finding_row finding_CC61, finding_row finding_CC61]
   \<and> map finding_row (findings passing_report) = [finding_row finding_CC61]
   \<and> recommendations_list
        (page (renderReport (Some passing_report)
           (page (renderReport (Some sample_report) blank_page))))
     = [recommendation_item finding_CC15]"
proof -
  let ?first = "page (renderReport (Some sample_report) blank_page)"
  have fails1: "filter (\<lambda>f. status f = ''FAIL'') (findings sample_report) = [finding_CC15]"
    by (simp add: sample_report_fields finding_CC15_def finding_CC61_def)
  have fails2: "filter (\<lambda>f. status f = ''FAIL'') (findings passing_report) = []"
    by (simp add: passing_report_fields finding_CC61_def)
  have "findings_tbody ?first = [finding_row finding_CC15, finding_row finding_CC61]"
    using renderReport_tbody [OF sample_report_fields(1,2), of blank_page]
    by (simp add: sample_report_fields blank_page_def)
  then have rows: "findings_tbody (page (renderReport (Some passing_report) ?first))
     = [finding_row finding_CC15, finding_row finding_CC61, finding_row finding_CC61]"
    using renderReport_tbody [OF passing_report_fields(1,2), of ?first]
    by (simp add: passing_report_fields)
  have "recommendations_list ?first = [recommendation_item finding_CC15]"
    using renderReport_recommendations(1) [OF sample_report_fields(1,2), of blank_page]
    by (simp add: fails1)
  then have recs: "recommendations_list (page (renderReport (Some passing_report) ?first))
     = [recommendation_item finding_CC15]"
    using renderReport_recommendations(1) [OF passing_report_fields(1,2), of ?first]
    by (simp add: fails2)
  from rows recs show ?thesis by (simp add: passing_report_fields)
qed

text \<open>In general the rows of a call come after those already there (\<open>renderReport_tbody\<close>).\<close>

subsection \<open>The recommendations panel\<close>

text \<open>
  The panel is hidden exactly when no finding has failed; otherwise the list is emptied and
  filled with one item per failed finding, in the order of the findings.
\<close>

lemma recommendations_panel:
  assumes "metadata d = Some m" and "stats d = Some s"
  shows "(recommendations_section_placeholder (page (renderReport (Some d) doc)) = ''none''
          \<longleftrightarrow> filter (\<lambda>f. status f = ''FAIL'') (findings d) = [])
       \<and> (filter (\<lambda>f. status f = ''FAIL'') (findings d) \<noteq> [] \<longrightarrow>
            recommendations_section_placeholder (page (renderReport (Some d) doc)) = ''block''
            \<and> recommendations_list (page (renderReport (Some d) doc))
                = map recommendation_item (filter (\<lambda>f. status f = ''FAIL'') (findings d)))"
  using renderReport_recommendations [OF assms, of doc] by simp

text \<open>
  The text of an item: the catalog text for an id the catalog lists, the fallback sentence
  for an id without markup characters that neither the catalog nor \<^verbatim>\<open>Object.prototype\<close>
  knows.
\<close>

lemma recommendation_item_mapped:
  assumes "map_of RECOMMENDATIONS_MAP (finding_id f) = Some t"
  shows "recommendation_item f = Li \<lparr>item_strong = finding_id f @ '':'', item_text = t\<rparr>"
proof -
  from assms have id: "finding_id f = ''CC1.5''"
    and t: "t = ''Your latest commit is unsigned. To fix this: 1. gpg --full-generate-key 2. git config --global commit.gpgsign true 3. git commit --amend --no-edit -S''"
    by (auto simp add: RECOMMENDATIONS_MAP_def split: if_splits)
  have "RECOMMENDATIONS_MAP_get (finding_id f) = JSString t"
    using assms by (simp add: RECOMMENDATIONS_MAP_get_def)
  moreover have "t \<noteq> []" and "text_safe t" and "text_safe (finding_id f)"
    by (simp_all add: id t text_safe_def)
  ultimately show ?thesis
    by (simp add: recommendation_item_def list_item_def Let_def)
qed

lemma text_safe_append: "text_safe (a @ b) \<longleftrightarrow> text_safe a \<and> text_safe b"
  by (auto simp add: text_safe_def)

lemma recommendation_item_fallback:
  assumes "map_of RECOMMENDATIONS_MAP (finding_id f) = None"
    and "map_of Object_prototype (finding_id f) = None"
    and "text_safe (finding_id f)"
  shows "recommendation_item f =
     Li \<lparr>item_strong = finding_id f @ '':'',
         item_text = ''No specific recommendation found for control '' @ finding_id f
                       @ ''. Please review the control objective and evidence.''\<rparr>"
proof -
  have "text_safe (''No specific recommendation found for control '' @ finding_id f
                       @ ''. Please review the control objective and evidence.'')"
    unfolding text_safe_append using assms(3) by (simp add: text_safe_def)
  with assms show ?thesis
    by (simp add: recommendation_item_def RECOMMENDATIONS_MAP_get_def list_item_def Let_def)
qed

text \<open>
  \<^bold>\<open>C2.\<close> A failed finding whose id is the name of a member of \<^verbatim>\<open>Object.prototype\<close> gets
  neither a catalog text nor the fallback sentence. The id \<^verbatim>\<open>constructor\<close> is not a key of
  the catalog, yet the property read finds the inherited built-in function, which is truthy,
  and the item shows the function printed as a string.
\<close>

theorem recommendation_inherited_key:
  "map_of RECOMMENDATIONS_MAP ''constructor'' = None
   \<and> recommendations_section_placeholder
        (page (renderReport (Some constructor_report) blank_page)) = ''block''
   \<and> recommendations_list (page (renderReport (Some constructor_report) blank_page))
       = [Li \<lparr>item_strong = ''constructor:'',
              item_text = ''function Object() { [native code] }''\<rparr>]
   \<and> ''function Object() { [native code] }''
       \<noteq> ''No specific recommendation found for control constructor. Please review the control objective and evidence.''"
proof -
  have fails: "filter (\<lambda>f. status f = ''FAIL'') (findings constructor_report)
               = [finding_constructor]"
    by (simp add: constructor_report_fields finding_constructor_def)
  have item: "recommendation_item finding_constructor
              = Li \<lparr>item_strong = ''constructor:'',
                    item_text = ''function Object() { [native code] }''\<rparr>"
    by (simp add: recommendation_item_def RECOMMENDATIONS_MAP_get_def RECOMMENDATIONS_MAP_def
        Object_prototype_def finding_constructor_def list_item_def text_safe_def Let_def)
  have "map_of RECOMMENDATIONS_MAP ''constructor'' = None"
    by (simp add: RECOMMENDATIONS_MAP_def)
  moreover have "recommendations_section_placeholder
        (page (renderReport (Some constructor_report) blank_page)) = ''block''"
    using renderReport_recommendations(2) [OF constructor_report_fields(1,2), of blank_page]
    by (simp add: fails)
  moreover have "recommendations_list (page (renderReport (Some constructor_report) blank_page))
       = [Li \<lparr>item_strong = ''constructor:'',
              item_text = ''function Object() { [native code] }''\<rparr>]"
    using renderReport_recommendations(1) [OF constructor_report_fields(1,2), of blank_page]
    by (simp add: fails item)
  ultimately show ?thesis by simp
qed

end
